theory Spec2Isabelle
  imports Main "HOL-Library.Word" "HOL-Library.Sublist"
begin

section \<open>Go strings as byte sequences\<close>

text \<open>
  A Go \<^verbatim>\<open>string\<close> and a \<^verbatim>\<open>[]byte\<close> are sequences of bytes; \<^typ>\<open>string\<close> (a list of 8-bit
  \<^typ>\<open>char\<close>) carries them. The conversion \<^verbatim>\<open>string(in)\<close> is the identity on the bytes.
\<close>

definition isASCII :: "char \<Rightarrow> bool" where
  "isASCII c = ((of_char c :: nat) < 128)"

definition isUpper :: "char \<Rightarrow> bool" where
  "isUpper c = (65 \<le> (of_char c :: nat) \<and> (of_char c :: nat) \<le> 90)"

definition lowerByte :: "char \<Rightarrow> char" where
  "lowerByte c = (if isUpper c then char_of ((of_char c :: nat) + 32) else c)"

text \<open>
  \<^verbatim>\<open>strings.ToLower(s)\<close> of the Go standard library: when every byte of \<open>s\<close> is below
  \<^verbatim>\<open>utf8.RuneSelf\<close> (128) each byte in \<^verbatim>\<open>'A'..'Z'\<close> has \<^verbatim>\<open>'a' - 'A'\<close> added and the others are
  kept; otherwise the result is \<^verbatim>\<open>strings.Map(unicode.ToLower, s)\<close>, which depends on the
  Unicode case tables. Those tables are not part of this repository, so that branch is the
  parameter \<open>mapLower\<close>; everything below holds for any value of it.
\<close>

definition ToLower :: "(string \<Rightarrow> string) \<Rightarrow> string \<Rightarrow> string" where
  "ToLower mapLower s = (if list_all isASCII s then map lowerByte s else mapLower s)"

section \<open>cmd/proxy/internal/envtypes: the issuer and auth method enumerations\<close>

text \<open>\<^verbatim>\<open>errors.New(text)\<close>: an error value that carries its message.\<close>

datatype error = errorString string

definition errors_New :: "string \<Rightarrow> error" where
  "errors_New msg = errorString msg"

fun Error :: "error \<Rightarrow> string" where
  "Error (errorString msg) = msg"

text \<open>
  \<^verbatim>\<open>type Issuer int\<close> with the constants \<^verbatim>\<open>VaultIssuer = iota\<close>, \<^verbatim>\<open>CFSSLIssuer\<close>,
  \<^verbatim>\<open>AWSIssuer\<close>: an integer type whose named values are 0, 1 and 2.
\<close>

type_synonym Issuer = int

definition VaultIssuer :: Issuer where
  "VaultIssuer = 0"

definition CFSSLIssuer :: Issuer where
  "CFSSLIssuer = 1"

definition AWSIssuer :: Issuer where
  "AWSIssuer = 2"

text \<open>The value a Go variable of an integer type holds before anything is assigned to it.\<close>

definition zero_Issuer :: Issuer where
  "zero_Issuer = 0"

text \<open>
  \<^verbatim>\<open>func (i *Issuer) UnmarshalText(in []byte) error\<close>. The receiver is a pointer: the model
  takes the value stored there and returns the value stored afterwards with the returned
  error (\<open>None\<close> is \<^verbatim>\<open>nil\<close>). The \<^verbatim>\<open>default\<close> branch returns before any assignment.
\<close>

definition Issuer_UnmarshalText ::
  "(string \<Rightarrow> string) \<Rightarrow> Issuer \<Rightarrow> string \<Rightarrow> Issuer \<times> error option"
where
  \<open>Issuer_UnmarshalText mapLower i inp =
    (let s = ToLower mapLower inp in
     if s = ''vault'' \<or> s = ''hashicorp'' then (VaultIssuer, None)
     else if s = ''cfssl'' \<or> s = ''cloudflare'' then (CFSSLIssuer, None)
     else if s = ''aws'' \<or> s = ''amazon'' \<or> s = ''acmpca'' \<or> s = ''awscmpca''
       then (AWSIssuer, None)
     else (i, Some (errors_New
       ''invalid issuer specified, supported issuers are "vault", "cfssl" and "aws"'')))\<close>

text \<open>
  \<^verbatim>\<open>type AuthMethod int\<close> with \<^verbatim>\<open>UnknownAuthMethod = iota\<close>, \<^verbatim>\<open>ConstantTokenAuthMethod\<close>,
  \<^verbatim>\<open>RenewingTokenAuthMethod\<close>.
\<close>

type_synonym AuthMethod = int

definition UnknownAuthMethod :: AuthMethod where
  "UnknownAuthMethod = 0"

definition ConstantTokenAuthMethod :: AuthMethod where
  "ConstantTokenAuthMethod = 1"

definition RenewingTokenAuthMethod :: AuthMethod where
  "RenewingTokenAuthMethod = 2"

definition zero_AuthMethod :: AuthMethod where
  "zero_AuthMethod = 0"

text \<open>
  \<^verbatim>\<open>func (am *AuthMethod) UnmarshalText(in []byte) error\<close>: every branch assigns, and the
  function returns \<^verbatim>\<open>nil\<close>.
\<close>

definition AuthMethod_UnmarshalText ::
  "(string \<Rightarrow> string) \<Rightarrow> AuthMethod \<Rightarrow> string \<Rightarrow> AuthMethod \<times> error option"
where
  "AuthMethod_UnmarshalText mapLower am inp =
    (let s = ToLower mapLower inp in
     if s = ''constant'' \<or> s = ''token'' \<or> s = ''constant_token''
       then (ConstantTokenAuthMethod, None)
     else if s = ''renewing'' \<or> s = ''renewing_token'' then (RenewingTokenAuthMethod, None)
     else (UnknownAuthMethod, None))"

section \<open>time.Duration and its text form\<close>

text \<open>
  \<^verbatim>\<open>type Duration int64\<close>: a count of nanoseconds in a signed 64-bit integer, read with
  \<^const>\<open>sint\<close>. The unit constants are those of the Go standard library.
\<close>

type_synonym Duration = "64 word"

definition Nanosecond :: Duration where
  "Nanosecond = 1"

definition Microsecond :: Duration where
  "Microsecond = 1000 * Nanosecond"

definition Millisecond :: Duration where
  "Millisecond = 1000 * Microsecond"

definition Second :: Duration where
  "Second = 1000 * Millisecond"

definition Minute :: Duration where
  "Minute = 60 * Second"

definition Hour :: Duration where
  "Hour = 60 * Minute"

text \<open>\<^verbatim>\<open>byte(digit) + '0'\<close> for a decimal digit.\<close>

definition digitByte :: "nat \<Rightarrow> char" where
  "digitByte n = char_of (n + 48)"

text \<open>
  \<^verbatim>\<open>fmtInt(buf, v)\<close> writes the decimal digits of \<open>v\<close> in front of what the buffer already
  holds. The buffer of \<^verbatim>\<open>Duration.format\<close> is filled from its end, so the model keeps the
  bytes written so far and puts new ones in front.
\<close>

function fmtInt_loop :: "string \<Rightarrow> nat \<Rightarrow> string" where
  "fmtInt_loop buf v = (if v = 0 then buf else fmtInt_loop (digitByte (v mod 10) # buf) (v div 10))"
  by pat_completeness auto
termination
  by (relation "measure (\<lambda>(buf, v). v)") auto

definition fmtInt :: "string \<Rightarrow> nat \<Rightarrow> string" where
  "fmtInt buf v = (if v = 0 then CHR ''0'' # buf else fmtInt_loop buf v)"

text \<open>
  \<^verbatim>\<open>fmtFrac(buf, v, prec)\<close> writes the fraction \<open>v / 10^prec\<close> without trailing zeros, and
  without the point when the fraction is zero; it returns the buffer and \<open>v / 10^prec\<close>.
\<close>

fun fmtFrac_loop :: "nat \<Rightarrow> string \<Rightarrow> nat \<Rightarrow> bool \<Rightarrow> string \<times> nat \<times> bool" where
  "fmtFrac_loop 0 buf v pr = (buf, v, pr)"
| "fmtFrac_loop (Suc k) buf v pr =
     (let digit = v mod 10;
          pr' = (pr \<or> digit \<noteq> 0);
          buf' = (if pr' then digitByte digit # buf else buf)
      in fmtFrac_loop k buf' (v div 10) pr')"

definition fmtFrac :: "string \<Rightarrow> nat \<Rightarrow> nat \<Rightarrow> string \<times> nat" where
  "fmtFrac buf v prec =
     (case fmtFrac_loop prec buf v False of
        (buf', v', pr) \<Rightarrow> (if pr then CHR ''.'' # buf' else buf', v'))"

text \<open>
  \<^verbatim>\<open>func (d Duration) String() string\<close>. \<open>u\<close> is \<^verbatim>\<open>uint64(d)\<close>, negated (with wrap-around)
  when \<open>d\<close> is negative; from there on the arithmetic is unsigned division and remainder.
  Below one second the unit is \<open>ns\<close>, \<open>\<mu>s\<close> (the bytes C2 B5 and \<open>s\<close>) or \<open>ms\<close>.
\<close>

definition Duration_String :: "Duration \<Rightarrow> string" where
  "Duration_String d =
     (let neg = (sint d < 0);
          u = unat (if neg then - d else d)
      in if u < unat Second then
           (if u = 0 then ''0s''
            else
              (case (if u < unat Microsecond then (0, ''ns'')
                     else if u < unat Millisecond then (3, [CHR 0xC2, CHR 0xB5, CHR ''s''])
                     else (6, ''ms'')) of
                 (prec, unit) \<Rightarrow>
                   (case fmtFrac unit u prec of
                      (w, u') \<Rightarrow>
                        (let w' = fmtInt w u' in if neg then CHR ''-'' # w' else w'))))
         else
           (case fmtFrac ''s'' u 9 of
              (w1, u1) \<Rightarrow>
                (let w2 = fmtInt w1 (u1 mod 60);
                     u2 = u1 div 60;
                     w3 = (if u2 > 0 then
                             (let w4 = fmtInt (CHR ''m'' # w2) (u2 mod 60);
                                  u3 = u2 div 60
                              in if u3 > 0 then fmtInt (CHR ''h'' # w4) u3 else w4)
                           else w2)
                 in if neg then CHR ''-'' # w3 else w3)))"

subsection \<open>time.ParseDuration\<close>

datatype duration_error = invalid_duration | missing_unit | unknown_unit string

definition isDigit :: "char \<Rightarrow> bool" where
  "isDigit c = (48 \<le> (of_char c :: nat) \<and> (of_char c :: nat) \<le> 57)"

text \<open>
  \<^verbatim>\<open>leadingInt(s)\<close> reads the digits at the start of \<open>s\<close> into an unsigned 64-bit integer and
  fails (\<open>None\<close>) when the value would pass \<open>2^63\<close>. The checks keep every intermediate value
  below \<open>2^64\<close>, so natural numbers compute what the unsigned arithmetic does.
\<close>

fun leadingInt_loop :: "nat \<Rightarrow> string \<Rightarrow> (nat \<times> string) option" where
  "leadingInt_loop x [] = Some (x, [])"
| "leadingInt_loop x (c # cs) =
     (if \<not> isDigit c then Some (x, c # cs)
      else if x > 2 ^ 63 div 10 then None
      else (let x' = x * 10 + ((of_char c :: nat) - 48)
            in if x' > 2 ^ 63 then None else leadingInt_loop x' cs))"

definition leadingInt :: "string \<Rightarrow> (nat \<times> string) option" where
  "leadingInt s = leadingInt_loop 0 s"

text \<open>
  \<^verbatim>\<open>leadingFraction(s)\<close> reads the digits after the point: the digits as an integer \<open>x\<close> and
  \<open>scale\<close>, the power of ten they are to be divided by. Digits that would overflow are
  skipped. \<open>scale\<close> is a \<^verbatim>\<open>float64\<close> in the source; it never passes \<open>10^19\<close>, which that type
  holds exactly.
\<close>

fun leadingFraction_loop :: "nat \<Rightarrow> nat \<Rightarrow> bool \<Rightarrow> string \<Rightarrow> nat \<times> nat \<times> string" where
  "leadingFraction_loop x scale overflow [] = (x, scale, [])"
| "leadingFraction_loop x scale overflow (c # cs) =
     (if \<not> isDigit c then (x, scale, c # cs)
      else if overflow then leadingFraction_loop x scale overflow cs
      else if x > (2 ^ 63 - 1) div 10 then leadingFraction_loop x scale True cs
      else (let y = x * 10 + ((of_char c :: nat) - 48)
            in if y > 2 ^ 63 then leadingFraction_loop x scale True cs
               else leadingFraction_loop y (scale * 10) overflow cs))"

definition leadingFraction :: "string \<Rightarrow> nat \<times> nat \<times> string" where
  "leadingFraction s = leadingFraction_loop 0 1 False s"

text \<open>\<^verbatim>\<open>unitMap\<close>: the nanoseconds of each unit; the micro sign is U+00B5 or U+03BC.\<close>

definition unitMap :: "string \<Rightarrow> nat option" where
  "unitMap u =
     (if u = ''ns'' then Some (unat Nanosecond)
      else if u = ''us'' then Some (unat Microsecond)
      else if u = [CHR 0xC2, CHR 0xB5, CHR ''s''] then Some (unat Microsecond)
      else if u = [CHR 0xCE, CHR 0xBC, CHR ''s''] then Some (unat Microsecond)
      else if u = ''ms'' then Some (unat Millisecond)
      else if u = ''s'' then Some (unat Second)
      else if u = ''m'' then Some (unat Minute)
      else if u = ''h'' then Some (unat Hour)
      else None)"

definition unitByte :: "char \<Rightarrow> bool" where
  "unitByte c = (\<not> (c = CHR ''.'' \<or> isDigit c))"

text \<open>
  One round of the loop of \<^verbatim>\<open>ParseDuration\<close> on the rest \<open>s\<close>: a number, an optional
  fraction, a unit. It returns the nanoseconds of the term and what follows it. The three
  steps are the three blocks of the loop body.

  \<open>consumeFraction\<close> is the block \<^verbatim>\<open>Consume (\.[0-9]*)?\<close>: the fraction's digits \<open>f\<close>, their
  \<open>scale\<close>, whether any digit was read (\<open>post\<close>) and the rest.
\<close>

definition consumeFraction :: "string \<Rightarrow> nat \<times> nat \<times> bool \<times> string" where
  "consumeFraction s1 =
     (case s1 of
        [] \<Rightarrow> (0, 1, False, s1)
      | c1 # t1 \<Rightarrow>
          if c1 = CHR ''.'' then
            (case leadingFraction t1 of
               (f, scale, s2) \<Rightarrow> (f, scale, length t1 \<noteq> length s2, s2))
          else (0, 1, False, s1))"

text \<open>
  \<open>consumeUnit\<close> is the block \<^verbatim>\<open>Consume unit\<close> with the arithmetic after it. The fraction's
  share is computed in \<^verbatim>\<open>float64\<close>, \<^verbatim>\<open>uint64(float64(f) * (float64(unit) / scale))\<close>; it
  is the parameter \<open>frac\<close>, called only when digits other than zeros follow the point.
\<close>

definition consumeUnit ::
  "(nat \<Rightarrow> nat \<Rightarrow> nat \<Rightarrow> nat) \<Rightarrow> nat \<Rightarrow> nat \<Rightarrow> nat \<Rightarrow> string \<Rightarrow>
   duration_error + (nat \<times> string)"
where
  "consumeUnit frac v f scale s2 =
     (let u = takeWhile unitByte s2;
          s3 = dropWhile unitByte s2
      in if u = [] then Inl missing_unit
         else
           (case unitMap u of
              None \<Rightarrow> Inl (unknown_unit u)
            | Some unit \<Rightarrow>
                if v > 2 ^ 63 div unit then Inl invalid_duration
                else if f > 0 then
                  (let v' = (v * unit + frac f unit scale) mod 2 ^ 64
                   in if v' > 2 ^ 63 then Inl invalid_duration else Inr (v', s3))
                else Inr (v * unit, s3)))"

definition parseTerm ::
  "(nat \<Rightarrow> nat \<Rightarrow> nat \<Rightarrow> nat) \<Rightarrow> string \<Rightarrow> duration_error + (nat \<times> string)"
where
  "parseTerm frac s =
     (case s of
        [] \<Rightarrow> Inl invalid_duration
      | c # cs \<Rightarrow>
          if \<not> (c = CHR ''.'' \<or> isDigit c) then Inl invalid_duration
          else
            (case leadingInt s of
               None \<Rightarrow> Inl invalid_duration
             | Some (v, s1) \<Rightarrow>
                 (case consumeFraction s1 of
                    (f, scale, post, s2) \<Rightarrow>
                      if \<not> (length s \<noteq> length s1) \<and> \<not> post then Inl invalid_duration
                      else consumeUnit frac v f scale s2)))"

lemma leadingInt_loop_length:
  "leadingInt_loop x s = Some (v, r) \<Longrightarrow> length r \<le> length s"
proof (induction s arbitrary: x)
  case Nil
  then show ?case by simp
next
  case (Cons c cs)
  show ?case
  proof (cases "isDigit c")
    case False
    with Cons.prems show ?thesis by auto
  next
    case True
    with Cons.prems obtain x' where "leadingInt_loop x' cs = Some (v, r)"
      by (auto simp: Let_def split: if_splits)
    then have "length r \<le> length cs"
      by (rule Cons.IH)
    then show ?thesis by simp
  qed
qed

lemma leadingFraction_loop_length:
  "leadingFraction_loop x sc ov s = (f, sc', r) \<Longrightarrow> length r \<le> length s"
proof (induction s arbitrary: x sc ov)
  case Nil
  then show ?case by simp
next
  case (Cons c cs)
  show ?case
  proof (cases "isDigit c")
    case False
    with Cons.prems show ?thesis by simp
  next
    case True
    with Cons.prems obtain x' sc'' ov' where "leadingFraction_loop x' sc'' ov' cs = (f, sc', r)"
      by (auto simp: Let_def split: if_splits)
    then have "length r \<le> length cs"
      by (rule Cons.IH)
    then show ?thesis by simp
  qed
qed

lemma consumeFraction_length:
  "consumeFraction s1 = (f, scale, post, s2) \<Longrightarrow> length s2 \<le> length s1"
  by (auto simp: consumeFraction_def leadingFraction_def
      split: list.splits if_splits prod.splits dest: leadingFraction_loop_length)

lemma dropWhile_shorter: "takeWhile P s \<noteq> [] \<Longrightarrow> length (dropWhile P s) < length s"
  by (cases s) (auto simp: le_imp_less_Suc length_dropWhile_le split: if_splits)

lemma consumeUnit_length:
  "consumeUnit frac v f scale s2 = Inr (w, r) \<Longrightarrow> length r < length s2"
  by (auto simp: consumeUnit_def Let_def dropWhile_shorter split: if_splits option.splits)

lemma parseTerm_shorter:
  assumes "parseTerm frac s = Inr (v, r)"
  shows "length r < length s"
proof -
  from assms obtain w s1 where li: "leadingInt s = Some (w, s1)"
    by (auto simp: parseTerm_def split: list.splits if_splits option.splits)
  then have l1: "length s1 \<le> length s"
    by (simp add: leadingInt_def leadingInt_loop_length)
  obtain f scale post s2 where cf: "consumeFraction s1 = (f, scale, post, s2)"
    by (cases "consumeFraction s1") auto
  then have l2: "length s2 \<le> length s1"
    by (rule consumeFraction_length)
  from assms li cf have "consumeUnit frac w f scale s2 = Inr (v, r)"
    by (auto simp: parseTerm_def split: list.splits if_splits)
  then have "length r < length s2"
    by (rule consumeUnit_length)
  with l1 l2 show ?thesis
    by simp
qed

text \<open>
  The loop \<^verbatim>\<open>for s != ""\<close> of \<^verbatim>\<open>ParseDuration\<close>: \<open>d\<close> is the sum so far, an unsigned 64-bit
  integer.
\<close>

function ParseDuration_loop ::
  "(nat \<Rightarrow> nat \<Rightarrow> nat \<Rightarrow> nat) \<Rightarrow> nat \<Rightarrow> string \<Rightarrow> duration_error + nat"
where
  "ParseDuration_loop frac d s =
     (if s = [] then Inr d
      else
        (case parseTerm frac s of
           Inl e \<Rightarrow> Inl e
         | Inr (v, s') \<Rightarrow>
             (let d' = (d + v) mod 2 ^ 64
              in if d' > 2 ^ 63 then Inl invalid_duration
                 else ParseDuration_loop frac d' s')))"
  by pat_completeness auto
termination
  by (relation "measure (\<lambda>(frac, d, s). length s)") (auto simp: parseTerm_shorter)

text \<open>\<^verbatim>\<open>func ParseDuration(s string) (Duration, error)\<close>.\<close>

definition ParseDuration ::
  "(nat \<Rightarrow> nat \<Rightarrow> nat \<Rightarrow> nat) \<Rightarrow> string \<Rightarrow> duration_error + Duration"
where
  "ParseDuration frac orig =
     (let neg = (case orig of [] \<Rightarrow> False | c # cs \<Rightarrow> c = CHR ''-'');
          s = (case orig of
                 [] \<Rightarrow> orig
               | c # cs \<Rightarrow> if c = CHR ''-'' \<or> c = CHR ''+'' then cs else orig)
      in if s = ''0'' then Inr 0
         else if s = [] then Inl invalid_duration
         else
           (case ParseDuration_loop frac 0 s of
              Inl e \<Rightarrow> Inl e
            | Inr d \<Rightarrow>
                if neg then Inr (- (word_of_nat d))
                else if d > 2 ^ 63 - 1 then Inl invalid_duration
                else Inr (word_of_nat d)))"

section \<open>issuers/vault: authentication and request types\<close>

text \<open>
  \<^verbatim>\<open>api.Client\<close> of the Vault client library, as far as \<^verbatim>\<open>SetToken\<close> touches it: the token
  it sends with requests. Whatever else a client holds is the record's extension.
  \<^verbatim>\<open>(*api.Client).SetToken(v)\<close> stores \<open>v\<close> there; on a \<^verbatim>\<open>nil\<close> client it dereferences a nil
  pointer.
\<close>

record Client =
  token :: string

datatype panic = nil_pointer_dereference

definition Client_SetToken :: "'a Client_scheme option \<Rightarrow> string \<Rightarrow> panic + 'a Client_scheme" where
  "Client_SetToken cli v =
     (case cli of None \<Rightarrow> Inl nil_pointer_dereference | Some c \<Rightarrow> Inr (c\<lparr>token := v\<rparr>))"

text \<open>
  \<^verbatim>\<open>type ConstantToken string\<close> and
  \<^verbatim>\<open>func (c ConstantToken) SetToken(_ context.Context, cli *api.Client) error\<close>: the context is
  ignored, the client's token is set, \<^verbatim>\<open>nil\<close> is returned.
\<close>

type_synonym ConstantToken = string

definition ConstantToken_SetToken ::
  "ConstantToken \<Rightarrow> 'ctx \<Rightarrow> 'a Client_scheme option \<Rightarrow> panic + ('a Client_scheme \<times> error option)"
where
  "ConstantToken_SetToken c ctx cli =
     (case Client_SetToken cli c of Inl p \<Rightarrow> Inl p | Inr cli' \<Rightarrow> Inr (cli', None))"

text \<open>\<^verbatim>\<open>strings.Join(elems, sep)\<close>.\<close>

fun Join :: "string list \<Rightarrow> string \<Rightarrow> string" where
  "Join [] sep = []"
| "Join [x] sep = x"
| "Join (x # y # ys) sep = x @ sep @ Join (y # ys) sep"

text \<open>
  \<^verbatim>\<open>type otherSans []string\<close> and \<^verbatim>\<open>func (o otherSans) MarshalJSON() ([]byte, error)\<close>: a double
  quote, the elements joined by commas, a double quote. A \<^verbatim>\<open>nil\<close> slice and an empty one both
  have length 0 and are the empty list.
\<close>

type_synonym otherSans = "string list"

definition otherSans_MarshalJSON :: "otherSans \<Rightarrow> string \<times> error option" where
  \<open>otherSans_MarshalJSON o' = (''"'' @ Join o' '','' @ ''"'', None)\<close>

text \<open>\<^verbatim>\<open>type ttl time.Duration\<close> and \<^verbatim>\<open>func (t ttl) MarshalJSON() ([]byte, error)\<close>.\<close>

type_synonym ttl = Duration

definition ttl_MarshalJSON :: "ttl \<Rightarrow> string \<times> error option" where
  \<open>ttl_MarshalJSON t = (''"'' @ Duration_String t @ ''"'', None)\<close>

text \<open>
  \<^verbatim>\<open>type csrOpts struct\<close>, the body of the request that asks Vault to sign a certificate
  request, with the JSON key of each field.
\<close>

record csrOpts =
  CSR :: string
  CommonName :: string
  ExcludeCNFromSANS :: bool
  Format :: string
  URISans :: otherSans
  OtherSans :: otherSans
  TimeToLive :: ttl

text \<open>
  What \<^verbatim>\<open>json.Marshal\<close> does with the bytes a \<^verbatim>\<open>MarshalJSON\<close> method returns
  (\<^verbatim>\<open>appendCompact\<close> with HTML escaping on): they must be one valid JSON value, or the call
  fails; white space outside strings is dropped; the bytes \<^verbatim>\<open><\<close>, \<^verbatim>\<open>>\<close> and \<^verbatim>\<open>&\<close> become
  the escapes \<open>u003c\<close>, \<open>u003e\<close> and \<open>u0026\<close> (each after a backslash), and the byte
  sequences E2 80 A8 and E2 80 A9 become the escapes \<open>u2028\<close> and \<open>u2029\<close>.

  \<open>inString\<close> follows the scanner through a string literal, from after its opening quote:
  a byte below 0x20 is refused, a backslash must start one of the escapes of JSON, and
  after the closing quote only white space may follow.
\<close>

definition isSpace :: "char \<Rightarrow> bool" where
  "isSpace c = (c = CHR '' '' \<or> c = CHR 0x09 \<or> c = CHR 0x0D \<or> c = CHR 0x0A)"

definition isHex :: "char \<Rightarrow> bool" where
  "isHex c =
     ((48 \<le> (of_char c :: nat) \<and> (of_char c :: nat) \<le> 57) \<or>
      (97 \<le> (of_char c :: nat) \<and> (of_char c :: nat) \<le> 102) \<or>
      (65 \<le> (of_char c :: nat) \<and> (of_char c :: nat) \<le> 70))"

fun inString :: "string \<Rightarrow> string option" where
  "inString [] = None"
| "inString (c # cs) =
     (if c = CHR 0x22 then (if list_all isSpace cs then Some [c] else None)
      else if c = CHR 0x5C then
        (case cs of
           [] \<Rightarrow> None
         | e # es \<Rightarrow>
             if e \<in> set [CHR ''b'', CHR ''f'', CHR ''n'', CHR ''r'', CHR ''t'', CHR 0x5C,
                         CHR ''/'', CHR 0x22]
             then map_option (\<lambda>r. c # e # r) (inString es)
             else if e = CHR ''u'' then
               (case es of
                  h1 # h2 # h3 # h4 # rest \<Rightarrow>
                    if isHex h1 \<and> isHex h2 \<and> isHex h3 \<and> isHex h4
                    then map_option (\<lambda>r. c # e # h1 # h2 # h3 # h4 # r) (inString rest)
                    else None
                | _ \<Rightarrow> None)
             else None)
      else if (of_char c :: nat) < 32 then None
      else if c = CHR ''<'' then map_option (\<lambda>r. CHR 0x5C # ''u003c'' @ r) (inString cs)
      else if c = CHR ''>'' then map_option (\<lambda>r. CHR 0x5C # ''u003e'' @ r) (inString cs)
      else if c = CHR ''&'' then map_option (\<lambda>r. CHR 0x5C # ''u0026'' @ r) (inString cs)
      else if c = CHR 0xE2 then
        (case cs of
           d1 # d2 # rest \<Rightarrow>
             if d1 = CHR 0x80 \<and> d2 = CHR 0xA8
               then map_option (\<lambda>r. CHR 0x5C # ''u2028'' @ r) (inString rest)
             else if d1 = CHR 0x80 \<and> d2 = CHR 0xA9
               then map_option (\<lambda>r. CHR 0x5C # ''u2029'' @ r) (inString rest)
             else map_option (\<lambda>r. c # r) (inString cs)
         | _ \<Rightarrow> map_option (\<lambda>r. c # r) (inString cs))
      else map_option (\<lambda>r. c # r) (inString cs))"

text \<open>
  The bytes of this program's \<^verbatim>\<open>MarshalJSON\<close> methods always start with a double quote,
  so the value is a string literal. No bytes at all are not a JSON value. What the library
  does with bytes that start otherwise (the other kinds of JSON value, or leading white
  space) is the parameter \<open>compactOther\<close>.
\<close>

definition appendCompact :: "(string \<Rightarrow> string option) \<Rightarrow> string \<Rightarrow> string option" where
  "appendCompact compactOther src =
     (case src of
        [] \<Rightarrow> None
      | c # cs \<Rightarrow>
          if c = CHR 0x22 then map_option (\<lambda>r. c # r) (inString cs) else compactOther src)"

text \<open>
  What \<^verbatim>\<open>json.Marshal\<close> of the Go standard library emits for a \<open>csrOpts\<close>: the fields in
  declaration order under the keys of their tags. A field tagged \<^verbatim>\<open>omitempty\<close> is left out
  when its value is empty (a slice of length 0, an integer equal to 0), and that is decided
  before its \<^verbatim>\<open>MarshalJSON\<close> is called. The value of a field whose type has a
  \<^verbatim>\<open>MarshalJSON\<close> method is what the method returns, checked and compacted (\<open>Raw\<close>); an
  error of the method, or bytes that are not valid JSON, end the encoding with a
  \<^verbatim>\<open>MarshalerError\<close> and no output. The other fields are encoded by the library from their
  Go value, which cannot fail.
\<close>

datatype json_value = String string | Bool bool | Raw string

datatype MarshalerError = method_error error | syntax_error

definition marshalerField ::
  "(string \<Rightarrow> string option) \<Rightarrow> string \<Rightarrow> bool \<Rightarrow> string \<times> error option \<Rightarrow>
   MarshalerError + (string \<times> json_value) list"
where
  "marshalerField compactOther key isEmpty r =
     (if isEmpty then Inr []
      else
        (case snd r of
           Some e \<Rightarrow> Inl (method_error e)
         | None \<Rightarrow>
             (case appendCompact compactOther (fst r) of
                None \<Rightarrow> Inl syntax_error
              | Some b \<Rightarrow> Inr [(key, Raw b)])))"

definition csrOpts_Marshal ::
  "(string \<Rightarrow> string option) \<Rightarrow> csrOpts \<Rightarrow> MarshalerError + (string \<times> json_value) list"
where
  "csrOpts_Marshal compactOther opts =
     (case marshalerField compactOther ''uri_sans'' (length (URISans opts) = 0)
             (otherSans_MarshalJSON (URISans opts)) of
        Inl e \<Rightarrow> Inl e
      | Inr uri \<Rightarrow>
          (case marshalerField compactOther ''other_sans'' (length (OtherSans opts) = 0)
                  (otherSans_MarshalJSON (OtherSans opts)) of
             Inl e \<Rightarrow> Inl e
           | Inr other \<Rightarrow>
               (case marshalerField compactOther ''ttl'' (csrOpts.TimeToLive opts = 0)
                       (ttl_MarshalJSON (csrOpts.TimeToLive opts)) of
                  Inl e \<Rightarrow> Inl e
                | Inr t \<Rightarrow>
                    Inr ([(''csr'', String (CSR opts)),
                          (''common_name'', String (CommonName opts)),
                          (''exclude_cn_from_sans'', Bool (ExcludeCNFromSANS opts)),
                          (''format'', String (Format opts))] @ uri @ other @ t))))"



text \<open>
  A signing request for \<open>svc.example.com\<close> with given SAN lists and lifetime.
\<close>

definition signRequest :: "otherSans \<Rightarrow> otherSans \<Rightarrow> ttl \<Rightarrow> csrOpts" where
  "signRequest uris others t =
     \<lparr>CSR = ''-----BEGIN CERTIFICATE REQUEST-----'',
      CommonName = ''svc.example.com'',
      ExcludeCNFromSANS = False,
      Format = ''pem'',
      URISans = uris,
      OtherSans = others,
      csrOpts.TimeToLive = t\<rparr>"

section \<open>cmd/proxy/internal/envtypes: the Vault configuration\<close>

text \<open>
  The anonymous struct of the field \<^verbatim>\<open>AuthMethodRenewingToken\<close> of \<^verbatim>\<open>Vault\<close>.
\<close>

record RenewingTokenConfig =
  Initial :: string
  RenewBefore :: Duration
  TimeToLive :: Duration

text \<open>
  \<^verbatim>\<open>type Vault struct\<close>. \<open>URL\<close> is a \<^verbatim>\<open>url.URL\<close> in the source; the model keeps its text, empty
  for the zero URL.
\<close>

record Vault =
  URL :: string
  Token :: string
  AuthMethod :: AuthMethod
  AuthMethodRenewingToken :: RenewingTokenConfig
  AuthMethodConstantToken :: ConstantToken
  Mount :: string
  Role :: string
  CACertPath :: string
  TimeToLive :: Duration
  URISubjectAlternativeNames :: "string list"
  OtherSubjectAlternativeNames :: "string list"

text \<open>The \<^verbatim>\<open>default\<close> struct tags of the fields of the renewing token configuration.\<close>

definition default_Initial :: string where
  "default_Initial = []"

definition default_RenewBefore :: string where
  "default_RenewBefore = ''30m''"

definition default_TimeToLive :: string where
  "default_TimeToLive = ''24h''"

text \<open>
  What \<^verbatim>\<open>envconfig.Process\<close> (the library that fills the configuration from the environment)
  does with one field: \<open>env\<close> is the result of looking the field's variable up (\<open>None\<close> when
  it is not set), \<open>def\<close> the field's \<^verbatim>\<open>default\<close> tag and \<open>cur\<close> the value the field holds.
  A variable that is not set gives the default when the tag is not empty, and leaves the
  field alone otherwise; a \<^verbatim>\<open>time.Duration\<close> is read with \<^verbatim>\<open>time.ParseDuration\<close>.
\<close>

definition processString :: "string option \<Rightarrow> string \<Rightarrow> string \<Rightarrow> string" where
  "processString env def cur =
     (case env of Some v \<Rightarrow> v | None \<Rightarrow> if def \<noteq> [] then def else cur)"

definition processDuration ::
  "(nat \<Rightarrow> nat \<Rightarrow> nat \<Rightarrow> nat) \<Rightarrow> string option \<Rightarrow> string \<Rightarrow> Duration \<Rightarrow>
   duration_error + Duration"
where
  "processDuration frac env def cur =
     (case env of
        Some v \<Rightarrow> ParseDuration frac v
      | None \<Rightarrow> if def \<noteq> [] then ParseDuration frac def else Inr cur)"

text \<open>
  The three fields of the renewing token configuration, in declaration order; the first
  value that does not parse ends the processing with its error.
\<close>

definition process_AuthMethodRenewingToken ::
  "(nat \<Rightarrow> nat \<Rightarrow> nat \<Rightarrow> nat) \<Rightarrow> string option \<Rightarrow> string option \<Rightarrow> string option \<Rightarrow>
   RenewingTokenConfig \<Rightarrow> duration_error + RenewingTokenConfig"
where
  "process_AuthMethodRenewingToken frac envInitial envRenewBefore envTimeToLive cur =
     (let ini = processString envInitial default_Initial (Initial cur) in
      case processDuration frac envRenewBefore default_RenewBefore (RenewBefore cur) of
        Inl e \<Rightarrow> Inl e
      | Inr rb \<Rightarrow>
          (case processDuration frac envTimeToLive default_TimeToLive
                  (RenewingTokenConfig.TimeToLive cur) of
             Inl e \<Rightarrow> Inl e
           | Inr t \<Rightarrow>
               Inr (cur\<lparr>Initial := ini, RenewBefore := rb,
                         RenewingTokenConfig.TimeToLive := t\<rparr>)))"

section \<open>Constructing the Vault issuer\<close>

datatype ConfigurationError =
  missing_required_field string | unknown_auth_method | renewal_not_before_expiry

datatype CredentialProvider =
  ConstantTokenProvider ConstantToken | RenewingTokenProvider RenewingTokenConfig

record VaultBackend =
  config :: Vault
  provider :: CredentialProvider

text \<open>
  Modelled from the spec: the constructor of the Vault backend, which is not among the
  sources (only the configuration struct it reads is). The specification's section 4.4
  says that construction fails fast when the configured auth method is Unknown for a
  backend that requires authentication, when a required field (for Vault: URL, role) is
  empty, or when RenewBefore is at least TimeToLive for a renewing credential; otherwise it
  yields the backend with its validated configuration and credential provider.
\<close>

definition newVaultIssuer :: "Vault \<Rightarrow> ConfigurationError + VaultBackend" where
  "newVaultIssuer v =
     (if URL v = [] then Inl (missing_required_field ''URL'')
      else if Role v = [] then Inl (missing_required_field ''Role'')
      else if AuthMethod v = ConstantTokenAuthMethod then
        Inr \<lparr>config = v, provider = ConstantTokenProvider (AuthMethodConstantToken v)\<rparr>
      else if AuthMethod v = RenewingTokenAuthMethod then
        (if sint (RenewingTokenConfig.TimeToLive (AuthMethodRenewingToken v))
              \<le> sint (RenewBefore (AuthMethodRenewingToken v))
         then Inl renewal_not_before_expiry
         else Inr \<lparr>config = v, provider = RenewingTokenProvider (AuthMethodRenewingToken v)\<rparr>)
      else Inl unknown_auth_method)"

text \<open>
  A complete Vault configuration that selects the renewing token, for given values of
  \<open>RenewBefore\<close> and \<open>TimeToLive\<close>; the mount and the certificate lifetime are the
  struct's defaults.
\<close>

definition renewingVault :: "Duration \<Rightarrow> Duration \<Rightarrow> Vault" where
  "renewingVault rb t =
     \<lparr>URL = ''https://vault.example.com:8200'',
      Token = [],
      AuthMethod = RenewingTokenAuthMethod,
      AuthMethodRenewingToken =
        \<lparr>Initial = ''s.initial'', RenewBefore = rb, RenewingTokenConfig.TimeToLive = t\<rparr>,
      AuthMethodConstantToken = [],
      Mount = ''pki'',
      Role = ''proxy'',
      CACertPath = [],
      Vault.TimeToLive = 720 * Hour,
      URISubjectAlternativeNames = [],
      OtherSubjectAlternativeNames = []\<rparr>"

section \<open>Decoding a SAN list\<close>

text \<open>
  Reading a SAN list back from its encoding, as the specification describes it: the text
  between the two double quotes, split at every comma. \<open>Split s sep\<close> is
  \<^verbatim>\<open>strings.Split(s, sep)\<close> for a separator of one byte: one piece more than there are
  separators, so the empty text gives one empty piece.
\<close>

fun Split :: "string \<Rightarrow> char \<Rightarrow> string list" where
  "Split [] sep = [[]]"
| "Split (c # cs) sep =
     (if c = sep then [] # Split cs sep
      else (case Split cs sep of [] \<Rightarrow> [[c]] | p # ps \<Rightarrow> (c # p) # ps))"

definition unquote :: "string \<Rightarrow> string" where
  "unquote s =
     (if 2 \<le> length s \<and> hd s = CHR 0x22 \<and> last s = CHR 0x22 then butlast (tl s) else s)"

definition decodeSans :: "string \<Rightarrow> string list" where
  "decodeSans b = Split (unquote b) CHR '',''"

definition commaFree :: "string \<Rightarrow> bool" where
  "commaFree s = (CHR '','' \<notin> set s)"

definition nonEmptyCommaFree :: "string \<Rightarrow> bool" where
  "nonEmptyCommaFree s = (s \<noteq> [] \<and> commaFree s)"

section \<open>Properties of the enumerations' parsers\<close>

lemma ToLower_ascii: "list_all isASCII s \<Longrightarrow> ToLower mapLower s = map lowerByte s"
  by (simp add: ToLower_def)

lemma AuthMethod_UnmarshalText_ascii:
  "list_all isASCII inp \<Longrightarrow>
   AuthMethod_UnmarshalText mapLower am inp =
     (if map lowerByte inp \<in> set [''constant'', ''token'', ''constant_token'']
        then (ConstantTokenAuthMethod, None)
      else if map lowerByte inp \<in> set [''renewing'', ''renewing_token'']
        then (RenewingTokenAuthMethod, None)
      else (UnknownAuthMethod, None))"
  by (simp add: AuthMethod_UnmarshalText_def ToLower_def)

lemma AuthMethod_mixed_case:
  "list_all isASCII ''TOKEN''" "map lowerByte ''TOKEN'' = ''token''"
  "list_all isASCII ''Constant''" "map lowerByte ''Constant'' = ''constant''"
  "list_all isASCII ''CONSTANT_token''" "map lowerByte ''CONSTANT_token'' = ''constant_token''"
  "list_all isASCII ''Renewing''" "map lowerByte ''Renewing'' = ''renewing''"
  "list_all isASCII ''RENEWING_TOKEN''" "map lowerByte ''RENEWING_TOKEN'' = ''renewing_token''"
  "list_all isASCII ''Vault''" "map lowerByte ''Vault'' = ''vault''"
  "list_all isASCII ''''" "map lowerByte '''' = ''''"
  by code_simp+

text \<open>
  C2. Parsing an auth method never fails, whatever the input and whatever the value
  stored before. The input is compared in lower case: an input of ASCII bytes has each of
  its capital letters replaced by the small one, so that \<open>TOKEN\<close>, \<open>Constant\<close> and
  \<open>CONSTANT_token\<close> store \<open>ConstantTokenAuthMethod\<close> as \<open>constant\<close>, \<open>token\<close> and
  \<open>constant_token\<close> do, and \<open>Renewing\<close> and \<open>RENEWING_TOKEN\<close> store
  \<open>RenewingTokenAuthMethod\<close> as \<open>renewing\<close> and \<open>renewing_token\<close> do. Every other input, the
  empty one and an issuer's name among them, stores \<open>UnknownAuthMethod\<close>.
\<close>

theorem AuthMethod_UnmarshalText_total:
  "snd (AuthMethod_UnmarshalText mapLower am inp) = None \<and>
   fst (AuthMethod_UnmarshalText mapLower am inp) =
     (if ToLower mapLower inp \<in> set [''constant'', ''token'', ''constant_token'']
        then ConstantTokenAuthMethod
      else if ToLower mapLower inp \<in> set [''renewing'', ''renewing_token'']
        then RenewingTokenAuthMethod
      else UnknownAuthMethod) \<and>
   ToLower mapLower inp = (if list_all isASCII inp then map lowerByte inp else mapLower inp) \<and>
   AuthMethod_UnmarshalText mapLower am ''TOKEN'' = (ConstantTokenAuthMethod, None) \<and>
   AuthMethod_UnmarshalText mapLower am ''Constant'' = (ConstantTokenAuthMethod, None) \<and>
   AuthMethod_UnmarshalText mapLower am ''CONSTANT_token'' = (ConstantTokenAuthMethod, None) \<and>
   AuthMethod_UnmarshalText mapLower am ''Renewing'' = (RenewingTokenAuthMethod, None) \<and>
   AuthMethod_UnmarshalText mapLower am ''RENEWING_TOKEN'' = (RenewingTokenAuthMethod, None) \<and>
   AuthMethod_UnmarshalText mapLower am ''Vault'' = (UnknownAuthMethod, None) \<and>
   AuthMethod_UnmarshalText mapLower am '''' = (UnknownAuthMethod, None)"
proof -
  have general: "snd (AuthMethod_UnmarshalText mapLower am inp) = None \<and>
     fst (AuthMethod_UnmarshalText mapLower am inp) =
       (if ToLower mapLower inp \<in> set [''constant'', ''token'', ''constant_token'']
          then ConstantTokenAuthMethod
        else if ToLower mapLower inp \<in> set [''renewing'', ''renewing_token'']
          then RenewingTokenAuthMethod
        else UnknownAuthMethod)"
    by (simp add: AuthMethod_UnmarshalText_def Let_def)
  have lower: "ToLower mapLower inp =
      (if list_all isASCII inp then map lowerByte inp else mapLower inp)"
    by (simp add: ToLower_def)
  have instances:
    "AuthMethod_UnmarshalText mapLower am ''TOKEN'' = (ConstantTokenAuthMethod, None)"
    "AuthMethod_UnmarshalText mapLower am ''Constant'' = (ConstantTokenAuthMethod, None)"
    "AuthMethod_UnmarshalText mapLower am ''CONSTANT_token'' = (ConstantTokenAuthMethod, None)"
    "AuthMethod_UnmarshalText mapLower am ''Renewing'' = (RenewingTokenAuthMethod, None)"
    "AuthMethod_UnmarshalText mapLower am ''RENEWING_TOKEN'' = (RenewingTokenAuthMethod, None)"
    "AuthMethod_UnmarshalText mapLower am ''Vault'' = (UnknownAuthMethod, None)"
    "AuthMethod_UnmarshalText mapLower am '''' = (UnknownAuthMethod, None)"
    by (simp_all only: AuthMethod_UnmarshalText_ascii AuthMethod_mixed_case) simp_all
  from general lower instances show ?thesis
    by blast
qed

text \<open>
  C1. Parsing an issuer succeeds exactly when the lower-cased input is one of the aliases
  of the switch: \<open>vault\<close> and \<open>hashicorp\<close> store \<open>VaultIssuer\<close>, \<open>cfssl\<close> and \<open>cloudflare\<close> store
  \<open>CFSSLIssuer\<close>, and \<open>aws\<close>, \<open>amazon\<close>, \<open>acmpca\<close> and \<open>awscmpca\<close> store \<open>AWSIssuer\<close>. Every
  other input returns an error whose message names the options \<open>"vault"\<close>, \<open>"cfssl"\<close> and
  \<open>"aws"\<close>.
\<close>

theorem Issuer_UnmarshalText_aliases:
  \<open>(snd (Issuer_UnmarshalText mapLower i inp) = None) =
     (ToLower mapLower inp \<in> set [''vault'', ''hashicorp'', ''cfssl'', ''cloudflare'',
        ''aws'', ''amazon'', ''acmpca'', ''awscmpca'']) \<and>
   Issuer_UnmarshalText mapLower i inp =
     (if ToLower mapLower inp \<in> set [''vault'', ''hashicorp''] then (VaultIssuer, None)
      else if ToLower mapLower inp \<in> set [''cfssl'', ''cloudflare''] then (CFSSLIssuer, None)
      else if ToLower mapLower inp \<in> set [''aws'', ''amazon'', ''acmpca'', ''awscmpca'']
        then (AWSIssuer, None)
      else (i, Some (errors_New
        ''invalid issuer specified, supported issuers are "vault", "cfssl" and "aws"''))) \<and>
   sublist ''"vault"''
     (Error (errors_New
        ''invalid issuer specified, supported issuers are "vault", "cfssl" and "aws"'')) \<and>
   sublist ''"cfssl"''
     (Error (errors_New
        ''invalid issuer specified, supported issuers are "vault", "cfssl" and "aws"'')) \<and>
   sublist ''"aws"''
     (Error (errors_New
        ''invalid issuer specified, supported issuers are "vault", "cfssl" and "aws"''))\<close>
proof -
  have vault: \<open>sublist ''"vault"''
      ''invalid issuer specified, supported issuers are "vault", "cfssl" and "aws"''\<close>
    by code_simp
  have cfssl: \<open>sublist ''"cfssl"''
      ''invalid issuer specified, supported issuers are "vault", "cfssl" and "aws"''\<close>
    by code_simp
  have aws: \<open>sublist ''"aws"''
      ''invalid issuer specified, supported issuers are "vault", "cfssl" and "aws"''\<close>
    by code_simp
  show ?thesis
    using vault cfssl aws
    by (simp add: Issuer_UnmarshalText_def Let_def errors_New_def)
qed

text \<open>
  The input \<open>acmpca\<close> is none of \<open>vault\<close>, \<open>hashicorp\<close>, \<open>cfssl\<close>, \<open>cloudflare\<close>, \<open>aws\<close> and
  \<open>amazon\<close>, and parsing it succeeds and stores \<open>AWSIssuer\<close>.
\<close>

theorem Issuer_UnmarshalText_acmpca:
  "ToLower id ''acmpca'' \<notin> set [''vault'', ''hashicorp'', ''cfssl'', ''cloudflare'',
      ''aws'', ''amazon''] \<and>
   Issuer_UnmarshalText id CFSSLIssuer ''acmpca'' = (AWSIssuer, None)"
  by code_simp

text \<open>Letter case is ignored: an example with mixed case, for any Unicode table.\<close>

lemma Issuer_UnmarshalText_HashiCorp:
  "Issuer_UnmarshalText mapLower i ''HashiCorp'' = (VaultIssuer, None)"
proof -
  have "list_all isASCII ''HashiCorp''"
    by code_simp
  moreover have "map lowerByte ''HashiCorp'' = ''hashicorp''"
    by code_simp
  ultimately have "ToLower mapLower ''HashiCorp'' = ''hashicorp''"
    by (simp only: ToLower_ascii)
  then show ?thesis
    by (simp add: Issuer_UnmarshalText_def)
qed

text \<open>
  C9. When parsing an issuer returns an error, the stored issuer is the one stored before
  the call: the failing branch assigns nothing.
\<close>

theorem Issuer_UnmarshalText_error_keeps:
  "snd (Issuer_UnmarshalText mapLower i inp) \<noteq> None \<Longrightarrow>
   fst (Issuer_UnmarshalText mapLower i inp) = i"
  by (simp add: Issuer_UnmarshalText_def Let_def split: if_splits)

theorem Issuer_UnmarshalText_error_keeps_witness:
  "snd (Issuer_UnmarshalText id CFSSLIssuer ''consul'') \<noteq> None \<and>
   fst (Issuer_UnmarshalText id CFSSLIssuer ''consul'') = CFSSLIssuer"
proof -
  have err: "snd (Issuer_UnmarshalText id CFSSLIssuer ''consul'') \<noteq> None"
    by code_simp
  from Issuer_UnmarshalText_error_keeps [OF err] err show ?thesis
    by simp
qed

text \<open>
  C10. The value of an \<open>Issuer\<close> that was never assigned is \<open>VaultIssuer\<close>, one of the
  supported issuers, and the value of an \<open>AuthMethod\<close> that was never assigned is
  \<open>UnknownAuthMethod\<close>, which is neither of the two supported methods.
\<close>

theorem zero_values:
  "zero_Issuer = VaultIssuer \<and> zero_Issuer \<noteq> CFSSLIssuer \<and> zero_Issuer \<noteq> AWSIssuer \<and>
   zero_AuthMethod = UnknownAuthMethod \<and> zero_AuthMethod \<noteq> ConstantTokenAuthMethod \<and>
   zero_AuthMethod \<noteq> RenewingTokenAuthMethod"
  by (simp add: zero_Issuer_def VaultIssuer_def CFSSLIssuer_def AWSIssuer_def
      zero_AuthMethod_def UnknownAuthMethod_def ConstantTokenAuthMethod_def
      RenewingTokenAuthMethod_def)

section \<open>Properties of the SAN encoding\<close>

lemma Split_no_sep: "sep \<notin> set s \<Longrightarrow> Split s sep = [s]"
  by (induction s) auto

lemma Split_append_sep:
  "sep \<notin> set x \<Longrightarrow> Split (x @ sep # rest) sep = x # Split rest sep"
  by (induction x) auto

lemma Split_Join:
  "xs \<noteq> [] \<Longrightarrow> list_all (\<lambda>x. sep \<notin> set x) xs \<Longrightarrow> Split (Join xs [sep]) sep = xs"
proof (induction xs "[sep]" rule: Join.induct)
  case 1
  then show ?case by simp
next
  case (2 x)
  then show ?case by (simp add: Split_no_sep)
next
  case (3 x y ys)
  then show ?case by (simp add: Split_append_sep)
qed

lemma unquote_quoted: "unquote (CHR 0x22 # s @ [CHR 0x22]) = s"
  by (simp add: unquote_def)

text \<open>
  C3. The encoding of a SAN list is a double quote, the elements joined by commas in the
  order given, and a double quote, with no error. For every list that has at least one
  element and whose elements hold no comma, splitting the text between the quotes at the
  commas gives the list back, in the same order.
\<close>

theorem otherSans_roundtrip:
  "xs \<noteq> [] \<Longrightarrow> list_all commaFree xs \<Longrightarrow>
   otherSans_MarshalJSON xs = (CHR 0x22 # Join xs '','' @ [CHR 0x22], None) \<and>
   decodeSans (fst (otherSans_MarshalJSON xs)) = xs"
proof -
  assume ne: "xs \<noteq> []" and cf: "list_all commaFree xs"
  from cf have "list_all (\<lambda>x. CHR '','' \<notin> set x) xs"
    by (simp add: commaFree_def list_all_iff)
  with ne have "Split (Join xs '','') CHR '','' = xs"
    by (rule Split_Join)
  then show ?thesis
    by (simp add: decodeSans_def otherSans_MarshalJSON_def unquote_quoted)
qed

theorem otherSans_roundtrip_witness:
  "[''a'', ''b''] \<noteq> [] \<and> list_all commaFree [''a'', ''b''] \<and>
   decodeSans (fst (otherSans_MarshalJSON [''a'', ''b''])) = [''a'', ''b''] \<and>
   fst (otherSans_MarshalJSON [''a'', ''b'']) = [CHR 0x22, CHR ''a'', CHR '','', CHR ''b'', CHR 0x22]"
proof -
  have ne: "[''a'', ''b''] \<noteq> []" by simp
  have cf: "list_all commaFree [''a'', ''b'']" by (simp add: commaFree_def)
  from otherSans_roundtrip [OF ne cf] ne cf show ?thesis
    by (simp add: otherSans_MarshalJSON_def)
qed

text \<open>
  The empty list is a list of non-empty comma-free strings, and it does not come back: its
  encoding is \<open>""\<close>, and the empty text between the quotes splits into one empty string.
\<close>

theorem otherSans_roundtrip_empty:
  "list_all nonEmptyCommaFree [] \<and>
   fst (otherSans_MarshalJSON []) = [CHR 0x22, CHR 0x22] \<and>
   decodeSans (fst (otherSans_MarshalJSON [])) = [[]] \<and>
   decodeSans (fst (otherSans_MarshalJSON [])) \<noteq> []"
  by (simp add: otherSans_MarshalJSON_def decodeSans_def unquote_def)

section \<open>Properties of the Vault request types\<close>

lemma digitByte_simps:
  "digitByte 0 = CHR ''0''" "digitByte 1 = CHR ''1''" "digitByte 2 = CHR ''2''"
  "digitByte 3 = CHR ''3''" "digitByte 4 = CHR ''4''" "digitByte 5 = CHR ''5''"
  "digitByte 6 = CHR ''6''" "digitByte 7 = CHR ''7''" "digitByte 8 = CHR ''8''"
  "digitByte 9 = CHR ''9''"
  by code_simp+

lemma unit_values:
  "Hour = 3600000000000" "Minute = 60000000000" "Second = 1000000000"
  "Millisecond = 1000000" "Microsecond = 1000" "Nanosecond = 1"
  by (simp_all add: Hour_def Minute_def Second_def Millisecond_def Microsecond_def
      Nanosecond_def)

lemma fmtFrac_loop_numeral:
  "fmtFrac_loop (numeral n) buf v pr =
     fmtFrac_loop (pred_numeral n)
       (if pr \<or> v mod 10 \<noteq> 0 then digitByte (v mod 10) # buf else buf) (v div 10)
       (pr \<or> v mod 10 \<noteq> 0)"
proof -
  have h: "numeral n = Suc (pred_numeral n)"
    by (rule numeral_eq_Suc)
  show ?thesis
    by (simp only: h fmtFrac_loop.simps Let_def)
qed

lemma fmtFrac_whole_seconds:
  "fmtFrac ''s'' 86400000000000 9 = (''s'', 86400)"
  "fmtFrac ''s'' 2592000000000000 9 = (''s'', 2592000)"
  "fmtFrac ''s'' 1800000000000 9 = (''s'', 1800)"
  by (simp_all add: fmtFrac_def fmtFrac_loop_numeral)

lemma Duration_String_24h: "Duration_String (24 * Hour) = ''24h0m0s''"
proof -
  have d: "24 * Hour = (86400000000000 :: 64 word)"
    by (simp add: unit_values)
  have u: "unat (86400000000000 :: 64 word) = 86400000000000"
    "\<not> sint (86400000000000 :: 64 word) < 0"
    by simp_all
  show ?thesis
    unfolding d Duration_String_def
    by (simp add: u unit_values fmtFrac_whole_seconds Let_def fmtInt_def digitByte_simps)
qed


lemma Duration_String_30m: "Duration_String (30 * Minute) = ''30m0s''"
proof -
  have d: "30 * Minute = (1800000000000 :: 64 word)"
    by (simp add: unit_values)
  have u: "unat (1800000000000 :: 64 word) = 1800000000000"
    "\<not> sint (1800000000000 :: 64 word) < 0"
    by simp_all
  show ?thesis
    unfolding d Duration_String_def
    by (simp add: u unit_values fmtFrac_whole_seconds Let_def fmtInt_def digitByte_simps)
qed


text \<open>
  C6. For every constant token, every context and every client, \<open>SetToken\<close> returns no
  error and leaves a client whose token is the constant token and whose other state is
  what it was.
\<close>

theorem ConstantToken_SetToken_sets:
  "ConstantToken_SetToken c ctx (Some cli) = Inr (cli\<lparr>token := c\<rparr>, None) \<and>
   token (cli\<lparr>token := c\<rparr>) = c \<and>
   Client.more (cli\<lparr>token := c\<rparr>) = Client.more cli"
  by (simp add: ConstantToken_SetToken_def Client_SetToken_def)



















text \<open>
  The encoder does not escape: a SAN that holds a double quote gives bytes that are not
  valid JSON, and the request is not encoded. A SAN that holds \<open><\<close> is encoded with the
  byte escaped.
\<close>

lemma csrOpts_Marshal_quote_fails:
  \<open>csrOpts_Marshal compactOther (signRequest [''a"b''] [] 0) = Inl syntax_error\<close>
  by (simp add: csrOpts_Marshal_def marshalerField_def signRequest_def
      otherSans_MarshalJSON_def appendCompact_def isSpace_def)

lemma csrOpts_Marshal_escapes:
  "\<exists>kvs. csrOpts_Marshal compactOther (signRequest [''a<b''] [] 0) = Inr kvs \<and>
     map_of kvs ''uri_sans'' = Some (Raw (CHR 0x22 # CHR ''a'' # CHR 0x5C # ''u003cb'' @ [CHR 0x22]))"
  by (simp add: csrOpts_Marshal_def marshalerField_def signRequest_def
      otherSans_MarshalJSON_def appendCompact_def isSpace_def)


section \<open>Properties of the Vault configuration\<close>

lemma ParseDuration_30m: "ParseDuration frac ''30m'' = Inr (30 * Minute)"
  by (simp add: ParseDuration_def parseTerm_def leadingInt_def isDigit_def Let_def
      consumeFraction_def consumeUnit_def unitByte_def unitMap_def unit_values)

lemma ParseDuration_24h: "ParseDuration frac ''24h'' = Inr (24 * Hour)"
  by (simp add: ParseDuration_def parseTerm_def leadingInt_def isDigit_def Let_def
      consumeFraction_def consumeUnit_def unitByte_def unitMap_def unit_values)

text \<open>
  C8. When the variables of \<open>RenewBefore\<close> and \<open>TimeToLive\<close> are not set, processing the
  renewing token configuration succeeds and leaves \<open>RenewBefore\<close> at 30 minutes and
  \<open>TimeToLive\<close> at 24 hours, whatever the fields held before.
\<close>

theorem AuthMethodRenewingToken_defaults:
  "\<exists>c. process_AuthMethodRenewingToken frac envInitial None None cur = Inr c \<and>
      RenewBefore c = 30 * Minute \<and>
      RenewingTokenConfig.TimeToLive c = 24 * Hour \<and>
      Duration_String (RenewBefore c) = ''30m0s'' \<and>
      Duration_String (RenewingTokenConfig.TimeToLive c) = ''24h0m0s'' \<and>
      sint (RenewBefore c) = 1800000000000 \<and>
      sint (RenewingTokenConfig.TimeToLive c) = 86400000000000"
  by (simp add: process_AuthMethodRenewingToken_def processDuration_def
      default_RenewBefore_def default_TimeToLive_def ParseDuration_30m ParseDuration_24h
      Duration_String_30m Duration_String_24h)
     (simp add: unit_values)

text \<open>
  C7. For a Vault configuration whose auth method is the renewing token: when
  \<open>RenewBefore\<close> is at least \<open>TimeToLive\<close>, constructing the issuer fails with a
  configuration error; and whenever construction succeeds, \<open>RenewBefore\<close> is less than
  \<open>TimeToLive\<close>.
\<close>

theorem newVaultIssuer_renewal_invariant:
  assumes "AuthMethod v = RenewingTokenAuthMethod"
  shows "(sint (RenewingTokenConfig.TimeToLive (AuthMethodRenewingToken v))
            \<le> sint (RenewBefore (AuthMethodRenewingToken v)) \<longrightarrow>
          (\<exists>e. newVaultIssuer v = Inl e)) \<and>
         ((\<exists>b. newVaultIssuer v = Inr b) \<longrightarrow>
          sint (RenewBefore (AuthMethodRenewingToken v))
            < sint (RenewingTokenConfig.TimeToLive (AuthMethodRenewingToken v)))"
  using assms
  by (auto simp: newVaultIssuer_def ConstantTokenAuthMethod_def RenewingTokenAuthMethod_def
      split: if_splits)

theorem newVaultIssuer_renewal_invariant_witness:
  "AuthMethod (renewingVault (24 * Hour) (30 * Minute)) = RenewingTokenAuthMethod \<and>
   sint (RenewingTokenConfig.TimeToLive
           (AuthMethodRenewingToken (renewingVault (24 * Hour) (30 * Minute))))
     \<le> sint (RenewBefore (AuthMethodRenewingToken (renewingVault (24 * Hour) (30 * Minute)))) \<and>
   (\<exists>e. newVaultIssuer (renewingVault (24 * Hour) (30 * Minute)) = Inl e) \<and>
   AuthMethod (renewingVault (30 * Minute) (24 * Hour)) = RenewingTokenAuthMethod \<and>
   (\<exists>b. newVaultIssuer (renewingVault (30 * Minute) (24 * Hour)) = Inr b) \<and>
   sint (RenewBefore (AuthMethodRenewingToken (renewingVault (30 * Minute) (24 * Hour))))
     < sint (RenewingTokenConfig.TimeToLive
               (AuthMethodRenewingToken (renewingVault (30 * Minute) (24 * Hour))))"
proof -
  let ?bad = "renewingVault (24 * Hour) (30 * Minute)"
  let ?good = "renewingVault (30 * Minute) (24 * Hour)"
  have am_bad: "AuthMethod ?bad = RenewingTokenAuthMethod"
    and am_good: "AuthMethod ?good = RenewingTokenAuthMethod"
    by (simp_all add: renewingVault_def)
  have late: "sint (RenewingTokenConfig.TimeToLive (AuthMethodRenewingToken ?bad))
      \<le> sint (RenewBefore (AuthMethodRenewingToken ?bad))"
    by (simp add: renewingVault_def unit_values)
  have built: "\<exists>b. newVaultIssuer ?good = Inr b"
    by (simp add: newVaultIssuer_def renewingVault_def unit_values
        ConstantTokenAuthMethod_def RenewingTokenAuthMethod_def)
  from newVaultIssuer_renewal_invariant [OF am_bad] late
  have "\<exists>e. newVaultIssuer ?bad = Inl e"
    by blast
  moreover from newVaultIssuer_renewal_invariant [OF am_good] built
  have "sint (RenewBefore (AuthMethodRenewingToken ?good))
      < sint (RenewingTokenConfig.TimeToLive (AuthMethodRenewingToken ?good))"
    by blast
  ultimately show ?thesis
    using am_bad am_good late built by blast
qed

end
